theory Spec2Isabelle
  imports Main
begin

section \<open>JavaScript values built by the program\<close>

text \<open>
  The program \<^verbatim>\<open>infra/index.ts\<close> builds one nested value out of strings, arrays and
  plain objects and hands it to \<^verbatim>\<open>JSON.stringify\<close>. A plain object is modelled by the
  list of its own enumerable properties in enumeration order (the order of
  \<^verbatim>\<open>Object.entries\<close> and of \<^verbatim>\<open>JSON.stringify\<close>); a string by its bytes.
\<close>

datatype json = JString string | JArray "json list" | JObject "(string \<times> json) list"

text \<open>
  A property of an object literal (also a computed or a spread one) is defined on the
  object itself: the value of a name already there is replaced in place, a new name is
  added last.
\<close>

fun define_property :: "(string \<times> 'v) list \<Rightarrow> string \<Rightarrow> 'v \<Rightarrow> (string \<times> 'v) list" where
  "define_property [] k v = [(k, v)]"
| "define_property ((k', v') # ps) k v =
     (if k' = k then (k, v) # ps else (k', v') # define_property ps k v)"

definition object_literal :: "(string \<times> 'v) list \<Rightarrow> (string \<times> 'v) list" where
  "object_literal props = foldl (\<lambda>obj (k, v). define_property obj k v) [] props"

text \<open>
  The assignment \<^verbatim>\<open>acc[tagKey] = value\<close> on an object created by \<^verbatim>\<open>{}\<close>, with an object as
  value. For every name but one it defines the property on \<^verbatim>\<open>acc\<close>. The name
  \<^verbatim>\<open>__proto__\<close> is an accessor inherited from \<^verbatim>\<open>Object.prototype\<close>: assigning an object
  to it replaces the prototype of \<^verbatim>\<open>acc\<close> and adds no property, so nothing of it is
  enumerated or serialised.
\<close>

definition assign_property :: "(string \<times> 'v) list \<Rightarrow> string \<Rightarrow> 'v \<Rightarrow> (string \<times> 'v) list" where
  "assign_property obj k v = (if k = ''__proto__'' then obj else define_property obj k v)"

section \<open>Configuration\<close>

text \<open>
  \<^verbatim>\<open>config.getObject("requiredTags")\<close> is \<^verbatim>\<open>undefined\<close> when the key is not configured
  and the configured object otherwise; \<^verbatim>\<open>config.get("enforcementMode")\<close> is \<^verbatim>\<open>undefined\<close>
  or the configured string. The configured object is given by the list
  \<^verbatim>\<open>Object.entries\<close> returns for it: its properties in enumeration order, each a label
  name with its array of allowed values. The names of such a list are distinct; the
  theorems that need this say so.
\<close>

record config =
  cfg_requiredTags :: "(string \<times> string list) list option"
  cfg_enforcementMode :: "string option"

text \<open>
  \<^verbatim>\<open>config.getObject(...) || { ... }\<close>: every object is truthy, the empty one too, so
  only \<^verbatim>\<open>undefined\<close> selects the built-in mapping.
\<close>

definition requiredTags :: "(string \<times> string list) list option \<Rightarrow> (string \<times> string list) list" where
  "requiredTags raw =
     (case raw of
        None \<Rightarrow>
          [(''Environment'', [''Development'', ''Staging'', ''Production'']),
           (''Owner'', []),
           (''CostCenter'', []),
           (''Project'', [])]
      | Some obj \<Rightarrow> obj)"

text \<open>
  \<^verbatim>\<open>config.get("enforcementMode") || "detective"\<close>: \<^verbatim>\<open>undefined\<close> and the empty string
  are the falsy values of the left operand.
\<close>

definition enforcementMode :: "string option \<Rightarrow> string" where
  "enforcementMode raw =
     (case raw of
        None \<Rightarrow> ''detective''
      | Some s \<Rightarrow> if s = [] then ''detective'' else s)"

definition SUPPORTED_SERVICES :: "string list" where
  "SUPPORTED_SERVICES =
     [''access-analyzer'', ''apigateway'', ''appmesh'', ''appstream'', ''athena'',
      ''cloudformation'', ''cloudfront'', ''cloudtrail'', ''cloudwatch'', ''codebuild'',
      ''codecommit'', ''codepipeline'', ''config'', ''dynamodb'', ''ec2'', ''ecr'', ''ecs'',
      ''elasticfilesystem'', ''eks'', ''elasticbeanstalk'', ''elasticache'',
      ''elasticloadbalancing'', ''es'', ''events'', ''fsx'', ''glue'', ''iam'', ''kinesis'',
      ''kms'', ''lambda'', ''logs'', ''rds'', ''redshift'', ''route53'', ''s3'', ''sagemaker'',
      ''secretsmanager'', ''sns'', ''sqs'', ''states'', ''ssm'', ''waf'', ''wafv2'',
      ''workspaces'']"

section \<open>The tag policy content\<close>

text \<open>
  The program names its two modes \<^verbatim>\<open>detective\<close> (monitor only, reports violations) and
  \<^verbatim>\<open>preventive\<close> (blocks operations); they are the report mode and the enforce mode of
  the specification. The field name is chosen by one comparison with \<^verbatim>\<open>detective\<close>.
\<close>

definition enforcedForKey :: "string \<Rightarrow> string" where
  "enforcedForKey mode =
     (if mode = ''detective'' then ''*@@report_required_tag_for*'' else ''enforced_for'')"

text \<open>The object \<^verbatim>\<open>{ "@@assign": v }\<close>.\<close>

definition assign :: "json \<Rightarrow> json" where
  "assign v = JObject [(''@@assign'', v)]"

text \<open>\<^verbatim>\<open>services.map(service => `${service}:ALL_SUPPORTED`)\<close>\<close>

definition all_supported :: "string list \<Rightarrow> json" where
  "all_supported services = JArray (map (\<lambda>service. JString (service @ '':ALL_SUPPORTED'')) services)"

text \<open>
  The object literal assigned to \<^verbatim>\<open>acc[tagKey]\<close>: \<^verbatim>\<open>tag_key\<close>, then the spread of
  \<^verbatim>\<open>allowedValues.length > 0 && { tag_value: ... }\<close> (the spread of \<^verbatim>\<open>false\<close> adds
  nothing), then the computed property named by \<^verbatim>\<open>enforcedForKey\<close>.
\<close>

definition tagEntry :: "string list \<Rightarrow> string \<Rightarrow> string \<Rightarrow> string list \<Rightarrow> json" where
  "tagEntry services key tagKey allowedValues =
     JObject (object_literal
       ([(''tag_key'', assign (JString tagKey))] @
        (if length allowedValues > 0
         then [(''tag_value'', assign (JArray (map JString allowedValues)))]
         else []) @
        [(key, assign (all_supported services))]))"

text \<open>
  \<^verbatim>\<open>Object.entries(requiredTags).reduce((acc, [tagKey, allowedValues]) => ..., {})\<close>.
  The catalog, the field name and the mapping are the module constants
  \<^verbatim>\<open>SUPPORTED_SERVICES\<close>, \<^verbatim>\<open>enforcedForKey\<close> and \<^verbatim>\<open>requiredTags\<close>, here parameters.
\<close>

definition tagPolicyTags :: "string list \<Rightarrow> string \<Rightarrow> (string \<times> string list) list \<Rightarrow> (string \<times> json) list" where
  "tagPolicyTags services key tags =
     foldl (\<lambda>acc (tagKey, allowedValues).
              assign_property acc tagKey (tagEntry services key tagKey allowedValues))
       [] tags"

definition tagPolicyContent :: "string list \<Rightarrow> string \<Rightarrow> (string \<times> string list) list \<Rightarrow> json" where
  "tagPolicyContent services key tags = JObject [(''tags'', JObject (tagPolicyTags services key tags))]"

section \<open>Serialisation\<close>

text \<open>
  \<^verbatim>\<open>JSON.stringify(value, null, 2)\<close> on the values above. A string is given by the bytes
  of its UTF-8 encoding; a surrogate code unit that is not part of a pair, which a
  JavaScript string may hold, by the three bytes \<^verbatim>\<open>ED A0..BF 80..BF\<close> that the same
  encoding scheme gives it (well-formed UTF-8 has no such sequence). A string is quoted:
  the double quote and the backslash are escaped, the control characters below \<^verbatim>\<open>0x20\<close>
  are written \<^verbatim>\<open>\b \t \n \f \r\<close> or \<^verbatim>\<open>\u00xx\<close>, a lone surrogate is written \<^verbatim>\<open>\udxxx\<close>
  (lower-case hexadecimal), and every other byte stands for itself.
\<close>

definition hex_digit :: "nat \<Rightarrow> char" where
  "hex_digit n = (if n < 10 then char_of (48 + n) else char_of (87 + n))"

definition quote_char :: "char \<Rightarrow> string" where
  "quote_char c =
     (if c = CHR 0x08 then [CHR 0x5C, CHR ''b'']
      else if c = CHR 0x09 then [CHR 0x5C, CHR ''t'']
      else if c = CHR 0x0A then [CHR 0x5C, CHR ''n'']
      else if c = CHR 0x0C then [CHR 0x5C, CHR ''f'']
      else if c = CHR 0x0D then [CHR 0x5C, CHR ''r'']
      else if c = CHR 0x22 then [CHR 0x5C, CHR 0x22]
      else if c = CHR 0x5C then [CHR 0x5C, CHR 0x5C]
      else if (of_char c :: nat) < 0x20
        then [CHR 0x5C, CHR ''u'', CHR ''0'', CHR ''0'',
              hex_digit (of_char c div 16), hex_digit (of_char c mod 16)]
      else [c])"

definition lone_surrogate :: "char \<Rightarrow> char \<Rightarrow> char \<Rightarrow> bool" where
  "lone_surrogate c1 c2 c3 =
     (c1 = CHR 0xED \<and>
      (0xA0 :: nat) \<le> of_char c2 \<and> (of_char c2 :: nat) \<le> 0xBF \<and>
      (0x80 :: nat) \<le> of_char c3 \<and> (of_char c3 :: nat) \<le> 0xBF)"

text \<open>
  The code unit of the bytes \<^verbatim>\<open>ED c2 c3\<close> is \<^verbatim>\<open>0xD000 + 64 * (c2 mod 64) + c3 mod 64\<close>;
  its four hexadecimal digits are \<^verbatim>\<open>d\<close> and the three below.
\<close>

definition surrogate_escape :: "char \<Rightarrow> char \<Rightarrow> string" where
  "surrogate_escape c2 c3 =
     [CHR 0x5C, CHR ''u'', CHR ''d'',
      hex_digit ((of_char c2 mod 64) div 4),
      hex_digit ((of_char c2 mod 4) * 4 + (of_char c3 mod 64) div 16),
      hex_digit (of_char c3 mod 16)]"

fun quote_chars :: "string \<Rightarrow> string" where
  "quote_chars (c1 # c2 # c3 # cs) =
     (if lone_surrogate c1 c2 c3 then surrogate_escape c2 c3 @ quote_chars cs
      else quote_char c1 @ quote_chars (c2 # c3 # cs))"
| "quote_chars (c # cs) = quote_char c @ quote_chars cs"
| "quote_chars [] = []"

definition quote :: "string \<Rightarrow> string" where
  "quote s = [CHR 0x22] @ quote_chars s @ [CHR 0x22]"

fun join :: "string \<Rightarrow> string list \<Rightarrow> string" where
  "join sep [] = []"
| "join sep [x] = x"
| "join sep (x # y # ys) = x @ sep @ join sep (y # ys)"

text \<open>
  \<open>wrap\<close> is the common end of the abstract operations for objects and arrays: no
  member gives the two brackets alone; with an empty gap the members are joined by
  commas; otherwise each member stands on a line of its own at the new indentation and
  the closing bracket at the old one.
\<close>

definition wrap :: "string \<Rightarrow> string \<Rightarrow> string \<Rightarrow> string \<Rightarrow> string list \<Rightarrow> string" where
  "wrap opening closing gap stepback partial =
     (if partial = [] then opening @ closing
      else if gap = [] then opening @ join '','' partial @ closing
      else opening @ [CHR 0x0A] @ (stepback @ gap) @
           join ('','' @ [CHR 0x0A] @ (stepback @ gap)) partial @
           [CHR 0x0A] @ stepback @ closing)"

fun serialize :: "string \<Rightarrow> string \<Rightarrow> json \<Rightarrow> string" where
  "serialize gap indent (JString s) = quote s"
| "serialize gap indent (JArray vs) =
     wrap ''['' '']'' gap indent (map (serialize gap (indent @ gap)) vs)"
| "serialize gap indent (JObject ps) =
     wrap ''{'' ''}'' gap indent
       (map (\<lambda>(k, v). quote k @ '':'' @ (if gap = [] then [] else '' '') @
                       serialize gap (indent @ gap) v) ps)"

definition JSON_stringify :: "json \<Rightarrow> nat \<Rightarrow> string" where
  "JSON_stringify v space = serialize (replicate (min space 10) CHR '' '') [] v"

text \<open>The decimal digits of a number, as a template literal writes \<^verbatim>\<open>${n}\<close>.\<close>

fun decimal :: "nat \<Rightarrow> string" where
  "decimal n = (if n < 10 then [char_of (48 + n)] else decimal (n div 10) @ [char_of (48 + n mod 10)])"

section \<open>The resources\<close>

text \<open>
  The two resource constructors register a resource with the deployment engine under a
  logical name. The engine assigns each resource its id; the program only passes the id
  of the policy on to the attachment, so the assignment is a parameter \<open>id_of\<close> from
  logical names to ids. \<^verbatim>\<open>org.roots\<close> is the list of the ids of the organization's
  roots, looked up outside the program; \<^verbatim>\<open>org.roots[0].id\<close> is \<^verbatim>\<open>undefined\<close> when the list
  is empty.
\<close>

record policyArgs =
  policy_name :: string
  policy_description :: string
  policy_type :: string
  policy_content :: string

record policyAttachmentArgs =
  policyId :: string
  targetId :: "string option"

datatype resource =
    Policy string policyArgs
  | PolicyAttachment string policyAttachmentArgs

definition tagPolicy :: "string list \<Rightarrow> string \<Rightarrow> (string \<times> string list) list \<Rightarrow> policyArgs" where
  "tagPolicy services mode tags =
     \<lparr> policy_name = ''required-tags-policy'',
       policy_description =
         ''Tag policy ('' @ mode @ '' mode) for required tags across '' @
         decimal (length services) @ '' AWS services'',
       policy_type = ''TAG_POLICY'',
       policy_content = JSON_stringify (tagPolicyContent services (enforcedForKey mode) tags) 2 \<rparr>"

definition policyAttachment :: "(string \<Rightarrow> string) \<Rightarrow> string list \<Rightarrow> policyAttachmentArgs" where
  "policyAttachment id_of roots =
     \<lparr> policyId = id_of ''required-tags-policy'',
       targetId = (case roots of [] \<Rightarrow> None | root # _ \<Rightarrow> Some root) \<rparr>"

text \<open>One run of the module: the resources it registers, in order.\<close>

definition program :: "(string \<Rightarrow> string) \<Rightarrow> string list \<Rightarrow> config \<Rightarrow> resource list" where
  "program id_of roots cfg =
     [Policy ''required-tags-policy''
        (tagPolicy SUPPORTED_SERVICES (enforcementMode (cfg_enforcementMode cfg))
           (requiredTags (cfg_requiredTags cfg))),
      PolicyAttachment ''required-tags-attachment'' (policyAttachment id_of roots)]"

section \<open>Reading a run and a document\<close>

text \<open>The arguments of the policies and of the attachments registered by a run.\<close>

fun policies :: "resource list \<Rightarrow> policyArgs list" where
  "policies [] = []"
| "policies (Policy n a # rs) = a # policies rs"
| "policies (PolicyAttachment n a # rs) = policies rs"

fun attachments :: "resource list \<Rightarrow> policyAttachmentArgs list" where
  "attachments [] = []"
| "attachments (Policy n a # rs) = attachments rs"
| "attachments (PolicyAttachment n a # rs) = a # attachments rs"

text \<open>
  Renaming one field of every label entry of a document \<^verbatim>\<open>{ "tags": { label: entry } }\<close>:
  the field keeps its place and its value, every other field is left as it is, and the
  label names are not touched.
\<close>

definition rename_field :: "string \<Rightarrow> string \<Rightarrow> json \<Rightarrow> json" where
  "rename_field old new entry =
     (case entry of
        JObject props \<Rightarrow> JObject (map (\<lambda>(k, v). (if k = old then new else k, v)) props)
      | _ \<Rightarrow> entry)"

definition rename_entry_field :: "string \<Rightarrow> string \<Rightarrow> json \<Rightarrow> json" where
  "rename_entry_field old new doc =
     (case doc of
        JObject [(t, JObject entries)] \<Rightarrow>
          JObject [(t, JObject (map (\<lambda>(label, entry). (label, rename_field old new entry)) entries))]
      | _ \<Rightarrow> doc)"

section \<open>Facts about property definition and the reduce loop\<close>

lemmas content_defs =
  tagPolicyContent_def tagPolicyTags_def tagEntry_def object_literal_def
  assign_property_def assign_def all_supported_def

lemmas config_defs = requiredTags_def enforcementMode_def enforcedForKey_def

lemmas text_defs = wrap_def quote_def quote_char_def lone_surrogate_def

lemma define_property_fresh: "k \<notin> fst ` set ps \<Longrightarrow> define_property ps k v = ps @ [(k, v)]"
  by (induction ps) auto

lemma keys_define_property: "fst ` set (define_property ps k v) = insert k (fst ` set ps)"
proof (induction ps)
  case Nil
  show ?case by simp
next
  case (Cons p ps)
  then show ?case by (cases p) (simp add: insert_commute)
qed

lemma set_define_property: "set (define_property ps k v) \<subseteq> insert (k, v) (set ps)"
  by (induction ps) (auto split: if_splits)

lemma define_property_map:
  "define_property (map (\<lambda>(k, v). (k, g v)) ps) k (g v) =
   map (\<lambda>(k, v). (k, g v)) (define_property ps k v)"
  by (induction ps) auto

lemma keys_assign_property:
  "fst ` set (assign_property ps k v) =
   (if k = ''__proto__'' then fst ` set ps else insert k (fst ` set ps))"
  by (simp add: assign_property_def keys_define_property)

lemma set_assign_property: "set (assign_property ps k v) \<subseteq> insert (k, v) (set ps)"
  using set_define_property [of ps k v] by (auto simp: assign_property_def)

text \<open>
  The loop on a mapping with distinct names, started on an accumulator that has none of
  them: each name but \<^verbatim>\<open>__proto__\<close> is added last, in the order of the mapping.
\<close>

lemma foldl_assign_property:
  "distinct (map fst tags) \<Longrightarrow> fst ` set acc \<inter> fst ` set tags = {} \<Longrightarrow>
   foldl (\<lambda>acc (tagKey, allowedValues). assign_property acc tagKey (f tagKey allowedValues)) acc tags =
   acc @ map (\<lambda>(tagKey, allowedValues). (tagKey, f tagKey allowedValues))
          (filter (\<lambda>(tagKey, allowedValues). tagKey \<noteq> ''__proto__'') tags)"
proof (induction tags arbitrary: acc)
  case Nil
  then show ?case by simp
next
  case (Cons p tags)
  obtain k vs where p: "p = (k, vs)" by (cases p)
  show ?case
  proof (cases "k = ''__proto__''")
    case True
    with Cons p show ?thesis by (auto simp: assign_property_def)
  next
    case False
    from Cons.prems p have fresh: "k \<notin> fst ` set acc" by auto
    have "fst ` set (acc @ [(k, f k vs)]) \<inter> fst ` set tags = {}"
      using Cons.prems p by auto
    with Cons.IH [of "acc @ [(k, f k vs)]"] Cons.prems p False fresh
    show ?thesis by (simp add: assign_property_def define_property_fresh)
  qed
qed

lemma tagPolicyTags_distinct:
  "distinct (map fst tags) \<Longrightarrow>
   tagPolicyTags services key tags =
   map (\<lambda>(tagKey, allowedValues). (tagKey, tagEntry services key tagKey allowedValues))
     (filter (\<lambda>(tagKey, allowedValues). tagKey \<noteq> ''__proto__'') tags)"
  unfolding tagPolicyTags_def
  using foldl_assign_property [of tags "[]" "tagEntry services key"] by simp

text \<open>Without any assumption on the mapping: the names of the result.\<close>

lemma foldl_keys:
  "fst ` set (foldl (\<lambda>acc (tagKey, allowedValues).
                      assign_property acc tagKey (f tagKey allowedValues)) acc tags) =
   fst ` set acc \<union> (fst ` set tags - {''__proto__''})"
proof (induction tags arbitrary: acc)
  case Nil
  show ?case by simp
next
  case (Cons p tags)
  obtain k vs where p: "p = (k, vs)" by (cases p)
  have "fst ` set (assign_property acc k (f k vs)) \<union> (fst ` set tags - {''__proto__''}) =
        fst ` set acc \<union> (fst ` set ((k, vs) # tags) - {''__proto__''})"
    by (auto simp: keys_assign_property)
  then show ?case
    unfolding p using Cons.IH [of "assign_property acc k (f k vs)"] by simp
qed

text \<open>Every property of the result was in the accumulator or was built by the loop body.\<close>

lemma foldl_members:
  "(k, e) \<in> set (foldl (\<lambda>acc (tagKey, allowedValues).
                          assign_property acc tagKey (f tagKey allowedValues)) acc tags) \<Longrightarrow>
   (k, e) \<in> set acc \<or> (\<exists>vs. (k, vs) \<in> set tags \<and> e = f k vs)"
proof (induction tags arbitrary: acc)
  case Nil
  then show ?case by simp
next
  case (Cons p tags)
  obtain k' vs' where p: "p = (k', vs')" by (cases p)
  from Cons.prems p
  have "(k, e) \<in> set (assign_property acc k' (f k' vs')) \<or>
        (\<exists>vs. (k, vs) \<in> set tags \<and> e = f k vs)"
    using Cons.IH [of "assign_property acc k' (f k' vs')"] by simp
  moreover have "set (assign_property acc k' (f k' vs')) \<subseteq> insert (k', f k' vs') (set acc)"
    by (rule set_assign_property)
  ultimately show ?case using p by auto
qed

text \<open>A function applied to every value commutes with the loop.\<close>

lemma foldl_rename:
  "(\<And>k vs. g (f k vs) = f' k vs) \<Longrightarrow>
   foldl (\<lambda>acc (tagKey, allowedValues). assign_property acc tagKey (f' tagKey allowedValues))
     (map (\<lambda>(k, v). (k, g v)) acc) tags =
   map (\<lambda>(k, v). (k, g v))
     (foldl (\<lambda>acc (tagKey, allowedValues). assign_property acc tagKey (f tagKey allowedValues))
        acc tags)"
proof (induction tags arbitrary: acc)
  case Nil
  show ?case by simp
next
  case (Cons p tags)
  obtain k vs where p: "p = (k, vs)" by (cases p)
  have step: "assign_property (map (\<lambda>(k, v). (k, g v)) acc) k (f' k vs) =
              map (\<lambda>(k, v). (k, g v)) (assign_property acc k (f k vs))"
    using define_property_map [of g acc k "f k vs"] Cons.prems [of k vs]
    by (simp add: assign_property_def)
  show ?case
    unfolding p using Cons.IH [OF Cons.prems, of "assign_property acc k (f k vs)"]
    by (simp add: step)
qed

lemma map_of_tagPolicyTags:
  assumes "distinct (map fst tags)" and "(tagKey, allowedValues) \<in> set tags"
    and "tagKey \<noteq> ''__proto__''"
  shows "map_of (tagPolicyTags services key tags) tagKey =
         Some (tagEntry services key tagKey allowedValues)"
proof -
  let ?kept = "filter (\<lambda>(tagKey, allowedValues). tagKey \<noteq> ''__proto__'') tags"
  let ?doc = "map (\<lambda>(tagKey, allowedValues).
                     (tagKey, tagEntry services key tagKey allowedValues)) ?kept"
  have keys: "map fst ?doc = map fst ?kept"
    by (induction tags) auto
  have "distinct (map fst ?kept)"
    using assms(1) by (simp add: distinct_map_filter)
  then have "distinct (map fst ?doc)" by (simp only: keys)
  moreover have "(tagKey, tagEntry services key tagKey allowedValues) \<in> set ?doc"
    using assms(2,3) by force
  ultimately have "map_of ?doc tagKey = Some (tagEntry services key tagKey allowedValues)"
    by (rule map_of_is_SomeI)
  then show ?thesis
    by (simp add: tagPolicyTags_distinct [OF assms(1)])
qed

text \<open>
  The two field names \<open>enforcedForKey\<close> can return differ from \<^verbatim>\<open>tag_key\<close> and
  \<^verbatim>\<open>tag_value\<close>, so the computed property of the entry never replaces one of them.
\<close>

lemma enforcedForKey_fresh:
  "enforcedForKey mode \<noteq> ''tag_key''" "enforcedForKey mode \<noteq> ''tag_value''"
  by (simp_all add: enforcedForKey_def)

lemma enforcedForKey_fresh':
  "''tag_key'' \<noteq> enforcedForKey mode" "''tag_value'' \<noteq> enforcedForKey mode"
  by (simp_all add: enforcedForKey_def)

lemma tagEntry_cases:
  assumes "key \<noteq> ''tag_key''" and "key \<noteq> ''tag_value''"
  shows "tagEntry services key tagKey [] =
           JObject [(''tag_key'', assign (JString tagKey)), (key, assign (all_supported services))]"
    and "allowedValues \<noteq> [] \<Longrightarrow> tagEntry services key tagKey allowedValues =
           JObject [(''tag_key'', assign (JString tagKey)),
                    (''tag_value'', assign (JArray (map JString allowedValues))),
                    (key, assign (all_supported services))]"
  using assms by (simp_all add: tagEntry_def object_literal_def)

lemma rename_field_tagEntry:
  "rename_field ''*@@report_required_tag_for*'' ''enforced_for''
     (tagEntry services ''*@@report_required_tag_for*'' tagKey allowedValues) =
   tagEntry services ''enforced_for'' tagKey allowedValues"
  by (simp add: rename_field_def tagEntry_def object_literal_def)

text \<open>
  The field names of an entry: the field chosen by the mode is there, and no name
  other than it, \<^verbatim>\<open>tag_key\<close> and \<^verbatim>\<open>tag_value\<close> is.
\<close>

lemma tagEntry_field_names:
  assumes "key \<noteq> ''tag_key''" and "key \<noteq> ''tag_value''"
    and "other \<noteq> ''tag_key''" and "other \<noteq> ''tag_value''" and "other \<noteq> key"
  shows "\<exists>entry. tagEntry services key tagKey allowedValues = JObject entry \<and>
           key \<in> fst ` set entry \<and> other \<notin> fst ` set entry"
proof (cases "allowedValues = []")
  case True
  then show ?thesis
    using assms by (simp add: tagEntry_cases(1) [OF assms(1,2)])
next
  case False
  then show ?thesis
    using assms by (simp add: tagEntry_cases(2) [OF assms(1,2)])
qed

lemma tagPolicyTags_field_names:
  assumes "key \<noteq> ''tag_key''" and "key \<noteq> ''tag_value''"
    and "other \<noteq> ''tag_key''" and "other \<noteq> ''tag_value''" and "other \<noteq> key"
    and "(tagKey, e) \<in> set (tagPolicyTags services key tags)"
  shows "\<exists>entry. e = JObject entry \<and> key \<in> fst ` set entry \<and> other \<notin> fst ` set entry"
proof -
  from assms(6) obtain allowedValues
    where e: "e = tagEntry services key tagKey allowedValues"
    unfolding tagPolicyTags_def
    using foldl_members [of tagKey e "tagEntry services key" "[]" tags] by auto
  show ?thesis
    unfolding e by (rule tagEntry_field_names [OF assms(1-5)])
qed

section \<open>A run on a small configuration\<close>

text \<open>
  The arguments of the policy for one unrestricted label and a catalog of one service,
  with no mode configured: the description names the mode and counts the services, the
  content is the document indented by two spaces.
\<close>

lemma tagPolicy_example:
  "tagPolicy [''ec2''] (enforcementMode None) (requiredTags (Some [(''Owner'', [])])) =
   \<lparr> policy_name = ''required-tags-policy'',
     policy_description = ''Tag policy (detective mode) for required tags across 1 AWS services'',
     policy_type = ''TAG_POLICY'',
     policy_content =
       ''{\<newline>  \"tags\": {\<newline>    \"Owner\": {\<newline>      \"tag_key\": {\<newline>        \"@@assign\": \"Owner\"\<newline>      },\<newline>      \"*@@report_required_tag_for*\": {\<newline>        \"@@assign\": [\<newline>          \"ec2:ALL_SUPPORTED\"\<newline>        ]\<newline>      }\<newline>    }\<newline>  }\<newline>}'' \<rparr>"
  by code_simp

text \<open>
  Quoting: a double quote, a backslash, a tab, the control character \<^verbatim>\<open>0x1F\<close>, the bytes
  of U+00E9 and the lone surrogate \<^verbatim>\<open>0xD83D\<close>.
\<close>

lemma quote_example:
  "quote [CHR ''a'', CHR 0x22, CHR 0x5C, CHR 0x09, CHR 0x1F, CHR 0xC3, CHR 0xA9,
          CHR 0xED, CHR 0xA0, CHR 0xBD, CHR ''z''] =
   [CHR 0x22, CHR ''a'', CHR 0x5C, CHR 0x22, CHR 0x5C, CHR 0x5C, CHR 0x5C, CHR ''t'',
    CHR 0x5C, CHR ''u'', CHR ''0'', CHR ''0'', CHR ''1'', CHR ''f'', CHR 0xC3, CHR 0xA9,
    CHR 0x5C, CHR ''u'', CHR ''d'', CHR ''8'', CHR ''3'', CHR ''d'', CHR ''z'', CHR 0x22]"
  by code_simp

lemma SUPPORTED_SERVICES_length: "length SUPPORTED_SERVICES = 44"
  by (simp add: SUPPORTED_SERVICES_def)

lemma SUPPORTED_SERVICES_distinct: "distinct SUPPORTED_SERVICES"
  by (simp add: SUPPORTED_SERVICES_def)

lemma decimal_44: "decimal 44 = ''44''"
  by code_simp

lemma tagPolicy_description_default_catalog:
  "policy_description (tagPolicy SUPPORTED_SERVICES (enforcementMode (Some ''preventive'')) tags) =
   ''Tag policy (preventive mode) for required tags across 44 AWS services''"
  by (simp add: tagPolicy_def enforcementMode_def SUPPORTED_SERVICES_length decimal_44
      del: decimal.simps)

text \<open>A label named \<^verbatim>\<open>__proto__\<close> leaves no entry in the document.\<close>

lemma proto_label_dropped:
  "tagPolicyContent [''ec2''] ''enforced_for'' [(''__proto__'', [''x'']), (''Owner'', [])] =
   JObject [(''tags'', JObject
     [(''Owner'', JObject
        [(''tag_key'', JObject [(''@@assign'', JString ''Owner'')]),
         (''enforced_for'', JObject [(''@@assign'', JArray [JString ''ec2:ALL_SUPPORTED''])])])])]"
  by (simp add: content_defs)

section \<open>The claims\<close>

subsection \<open>C1: resolving the enforcement mode\<close>

text \<open>
  C1, as stated, fails. The claim says that a mode string other than the two recognised
  names raises a configuration error and never resolves to a mode. The program has no
  such check: the misspelt mode \<^verbatim>\<open>enforcd\<close> is kept as the mode and selects the blocking
  field \<^verbatim>\<open>enforced_for\<close>.
\<close>

theorem enforcementMode_unrecognized_counterexample:
  "enforcementMode (Some ''enforcd'') = ''enforcd'' \<and>
   enforcedForKey (enforcementMode (Some ''enforcd'')) = ''enforced_for''"
  by (simp add: enforcementMode_def enforcedForKey_def)

text \<open>
  C1, amended. An absent mode resolves to the report field. No input raises an error:
  a configured string resolves to the report field \<^verbatim>\<open>*@@report_required_tag_for*\<close> exactly
  when it is empty or the literal \<^verbatim>\<open>detective\<close>, and to the blocking field
  \<^verbatim>\<open>enforced_for\<close> in every other case, an unrecognised string included.
\<close>

theorem enforcedForKey_of_configured_mode:
  "enforcedForKey (enforcementMode None) = ''*@@report_required_tag_for*'' \<and>
   (\<forall>s. enforcedForKey (enforcementMode (Some s)) =
        (if s = [] \<or> s = ''detective'' then ''*@@report_required_tag_for*''
         else ''enforced_for''))"
  by (simp add: enforcementMode_def enforcedForKey_def)

subsection \<open>C2: the example document\<close>

text \<open>
  C2. The mapping \<^verbatim>\<open>{"Environment": ["Dev","Prod"], "Owner": []}\<close>, compiled in the
  report mode (\<^verbatim>\<open>detective\<close>) against the catalog \<^verbatim>\<open>["ec2","s3"]\<close>, gives exactly the
  document of the specification: as a value, with the field names \<^verbatim>\<open>tag_key\<close>,
  \<^verbatim>\<open>tag_value\<close> and the marker \<^verbatim>\<open>@@assign\<close>, and as the text that serialising this
  value without indentation produces, which is the specification's text character by
  character.
\<close>

theorem tagPolicyContent_example:
  "tagPolicyContent [''ec2'', ''s3''] (enforcedForKey (enforcementMode (Some ''detective'')))
     (requiredTags (Some [(''Environment'', [''Dev'', ''Prod'']), (''Owner'', [])])) =
   JObject [(''tags'', JObject
     [(''Environment'', JObject
        [(''tag_key'', JObject [(''@@assign'', JString ''Environment'')]),
         (''tag_value'', JObject [(''@@assign'', JArray [JString ''Dev'', JString ''Prod''])]),
         (''*@@report_required_tag_for*'', JObject [(''@@assign'',
            JArray [JString ''ec2:ALL_SUPPORTED'', JString ''s3:ALL_SUPPORTED''])])]),
      (''Owner'', JObject
        [(''tag_key'', JObject [(''@@assign'', JString ''Owner'')]),
         (''*@@report_required_tag_for*'', JObject [(''@@assign'',
            JArray [JString ''ec2:ALL_SUPPORTED'', JString ''s3:ALL_SUPPORTED''])])])])] \<and>
   serialize [] []
     (tagPolicyContent [''ec2'', ''s3''] (enforcedForKey (enforcementMode (Some ''detective'')))
        (requiredTags (Some [(''Environment'', [''Dev'', ''Prod'']), (''Owner'', [])]))) =
   ''{\"tags\":{\"Environment\":{\"tag_key\":{\"@@assign\":\"Environment\"},\"tag_value\":{\"@@assign\":[\"Dev\",\"Prod\"]},\"*@@report_required_tag_for*\":{\"@@assign\":[\"ec2:ALL_SUPPORTED\",\"s3:ALL_SUPPORTED\"]}},\"Owner\":{\"tag_key\":{\"@@assign\":\"Owner\"},\"*@@report_required_tag_for*\":{\"@@assign\":[\"ec2:ALL_SUPPORTED\",\"s3:ALL_SUPPORTED\"]}}}}''"
proof
  show "tagPolicyContent [''ec2'', ''s3''] (enforcedForKey (enforcementMode (Some ''detective'')))
     (requiredTags (Some [(''Environment'', [''Dev'', ''Prod'']), (''Owner'', [])])) =
   JObject [(''tags'', JObject
     [(''Environment'', JObject
        [(''tag_key'', JObject [(''@@assign'', JString ''Environment'')]),
         (''tag_value'', JObject [(''@@assign'', JArray [JString ''Dev'', JString ''Prod''])]),
         (''*@@report_required_tag_for*'', JObject [(''@@assign'',
            JArray [JString ''ec2:ALL_SUPPORTED'', JString ''s3:ALL_SUPPORTED''])])]),
      (''Owner'', JObject
        [(''tag_key'', JObject [(''@@assign'', JString ''Owner'')]),
         (''*@@report_required_tag_for*'', JObject [(''@@assign'',
            JArray [JString ''ec2:ALL_SUPPORTED'', JString ''s3:ALL_SUPPORTED''])])])])]"
    by (simp add: content_defs config_defs)
next
  show "serialize [] []
     (tagPolicyContent [''ec2'', ''s3''] (enforcedForKey (enforcementMode (Some ''detective'')))
        (requiredTags (Some [(''Environment'', [''Dev'', ''Prod'']), (''Owner'', [])]))) =
   ''{\"tags\":{\"Environment\":{\"tag_key\":{\"@@assign\":\"Environment\"},\"tag_value\":{\"@@assign\":[\"Dev\",\"Prod\"]},\"*@@report_required_tag_for*\":{\"@@assign\":[\"ec2:ALL_SUPPORTED\",\"s3:ALL_SUPPORTED\"]}},\"Owner\":{\"tag_key\":{\"@@assign\":\"Owner\"},\"*@@report_required_tag_for*\":{\"@@assign\":[\"ec2:ALL_SUPPORTED\",\"s3:ALL_SUPPORTED\"]}}}}''"
    by (simp add: content_defs config_defs text_defs)
qed

subsection \<open>C3: no validation of the configured mapping\<close>

text \<open>
  C3, as stated, fails. The claim says that an empty or whitespace-only label name or
  allowed value raises a configuration error and that no document is produced. The
  program validates nothing: the mapping \<^verbatim>\<open>{"": [""], "  ": [" "]}\<close> is compiled into a
  document with an entry for the empty name and one for the blank name, each listing
  its empty or blank value.
\<close>

theorem blank_label_counterexample:
  "tagPolicyContent [''ec2''] (enforcedForKey (enforcementMode None))
     (requiredTags (Some [([], [[]]), (''  '', ['' ''])])) =
   JObject [(''tags'', JObject
     [([], JObject
        [(''tag_key'', JObject [(''@@assign'', JString [])]),
         (''tag_value'', JObject [(''@@assign'', JArray [JString []])]),
         (''*@@report_required_tag_for*'', JObject [(''@@assign'',
            JArray [JString ''ec2:ALL_SUPPORTED''])])]),
      (''  '', JObject
        [(''tag_key'', JObject [(''@@assign'', JString ''  '')]),
         (''tag_value'', JObject [(''@@assign'', JArray [JString '' ''])]),
         (''*@@report_required_tag_for*'', JObject [(''@@assign'',
            JArray [JString ''ec2:ALL_SUPPORTED''])])])])]"
  by (simp add: content_defs config_defs)

text \<open>
  C3, amended. The program validates nothing and raises no configuration error: for
  every configured mapping, a document is produced whose label names are those of the
  mapping (the name \<^verbatim>\<open>__proto__\<close> apart); and when the names of the mapping are distinct,
  as the properties of a configured object are, the document holds one entry per such
  label, in the order of the mapping, built from the name and the values as given,
  empty or blank ones included.
\<close>

theorem tagPolicyContent_unvalidated:
  "fst ` set (tagPolicyTags services (enforcedForKey mode) tags) =
     fst ` set tags - {''__proto__''} \<and>
   (distinct (map fst tags) \<longrightarrow>
    tagPolicyContent services (enforcedForKey mode) tags =
    JObject [(''tags'', JObject
      (map (\<lambda>(tagKey, allowedValues).
              (tagKey, tagEntry services (enforcedForKey mode) tagKey allowedValues))
         (filter (\<lambda>(tagKey, allowedValues). tagKey \<noteq> ''__proto__'') tags)))])"
proof
  show "fst ` set (tagPolicyTags services (enforcedForKey mode) tags) =
          fst ` set tags - {''__proto__''}"
    unfolding tagPolicyTags_def
    using foldl_keys [of "tagEntry services (enforcedForKey mode)" "[]" tags] by simp
next
  show "distinct (map fst tags) \<longrightarrow>
    tagPolicyContent services (enforcedForKey mode) tags =
    JObject [(''tags'', JObject
      (map (\<lambda>(tagKey, allowedValues).
              (tagKey, tagEntry services (enforcedForKey mode) tagKey allowedValues))
         (filter (\<lambda>(tagKey, allowedValues). tagKey \<noteq> ''__proto__'') tags)))]"
    by (simp add: tagPolicyContent_def tagPolicyTags_distinct)
qed

text \<open>
  C3, witness: the amended statement at the mapping \<^verbatim>\<open>{"": [""], "  ": [" "]}\<close>, whose
  names are distinct.
\<close>

theorem tagPolicyContent_unvalidated_witness:
  "distinct (map fst [([], [[]]), (''  '', ['' ''])]) \<and>
   fst ` set (tagPolicyTags [''ec2''] (enforcedForKey ''detective'') [([], [[]]), (''  '', ['' ''])]) =
     {[], ''  ''} \<and>
   tagPolicyContent [''ec2''] (enforcedForKey ''detective'') [([], [[]]), (''  '', ['' ''])] =
   JObject [(''tags'', JObject
      [([], tagEntry [''ec2''] (enforcedForKey ''detective'') [] [[]]),
       (''  '', tagEntry [''ec2''] (enforcedForKey ''detective'') ''  '' ['' ''])])]"
proof -
  let ?tags = "[([], [[]]), (''  '', ['' ''])] :: (string \<times> string list) list"
  note inst = tagPolicyContent_unvalidated [of "[''ec2'']" "''detective''" ?tags]
  have d: "distinct (map fst ?tags)" by simp
  have "fst ` set (tagPolicyTags [''ec2''] (enforcedForKey ''detective'') ?tags) = {[], ''  ''}"
    using inst [THEN conjunct1] by auto
  moreover
  have "tagPolicyContent [''ec2''] (enforcedForKey ''detective'') ?tags =
        JObject [(''tags'', JObject
          [([], tagEntry [''ec2''] (enforcedForKey ''detective'') [] [[]]),
           (''  '', tagEntry [''ec2''] (enforcedForKey ''detective'') ''  '' ['' ''])])]"
    using inst [THEN conjunct2, rule_format, OF d] by simp
  ultimately show ?thesis using d by blast
qed

subsection \<open>C4: the allowed values of a label\<close>

text \<open>
  C4. Let the names of the mapping be distinct, and let a label of the mapping with its
  allowed values have an entry in the compiled document. If the allowed values are not
  empty, the entry has a field \<^verbatim>\<open>tag_value\<close> that assigns exactly these values, in their
  order; if they are empty, the entry has no field \<^verbatim>\<open>tag_value\<close> at all.
\<close>

theorem tag_value_field:
  assumes "distinct (map fst tags)"
    and "(tagKey, allowedValues) \<in> set tags"
    and "tagKey \<in> fst ` set (tagPolicyTags services (enforcedForKey mode) tags)"
  shows "\<exists>entry. map_of (tagPolicyTags services (enforcedForKey mode) tags) tagKey =
                    Some (JObject entry) \<and>
           (if allowedValues = [] then ''tag_value'' \<notin> fst ` set entry
            else map_of entry ''tag_value'' =
                   Some (JObject [(''@@assign'', JArray (map JString allowedValues))]))"
proof -
  from assms(3) have "tagKey \<noteq> ''__proto__''"
    unfolding tagPolicyTags_def
    using foldl_keys [of "tagEntry services (enforcedForKey mode)" "[]" tags] by simp
  with assms(1,2)
  have entry: "map_of (tagPolicyTags services (enforcedForKey mode) tags) tagKey =
        Some (tagEntry services (enforcedForKey mode) tagKey allowedValues)"
    by (rule map_of_tagPolicyTags)
  note fields = tagEntry_cases [OF enforcedForKey_fresh]
  show ?thesis
  proof (cases "allowedValues = []")
    case True
    with entry show ?thesis
      by (simp add: fields(1) enforcedForKey_fresh')
  next
    case False
    with entry show ?thesis
      by (simp add: fields(2) assign_def)
  qed
qed

text \<open>
  C4, witness: the label \<^verbatim>\<open>Environment\<close> of the mapping
  \<^verbatim>\<open>{"Environment": ["Dev","Prod"], "Owner": []}\<close>.
\<close>

theorem tag_value_field_witness:
  "distinct (map fst [(''Environment'', [''Dev'', ''Prod'']), (''Owner'', [])]) \<and>
   (''Environment'', [''Dev'', ''Prod'']) \<in>
     set [(''Environment'', [''Dev'', ''Prod'']), (''Owner'', [])] \<and>
   ''Environment'' \<in> fst ` set (tagPolicyTags [''ec2''] (enforcedForKey ''detective'')
       [(''Environment'', [''Dev'', ''Prod'']), (''Owner'', [])]) \<and>
   (\<exists>entry. map_of (tagPolicyTags [''ec2''] (enforcedForKey ''detective'')
         [(''Environment'', [''Dev'', ''Prod'']), (''Owner'', [])]) ''Environment'' =
         Some (JObject entry) \<and>
      map_of entry ''tag_value'' =
        Some (JObject [(''@@assign'', JArray [JString ''Dev'', JString ''Prod''])]))"
proof -
  let ?tags = "[(''Environment'', [''Dev'', ''Prod'']), (''Owner'', [])]"
  have d: "distinct (map fst ?tags)" by simp
  have m: "(''Environment'', [''Dev'', ''Prod'']) \<in> set ?tags" by simp
  have k: "''Environment'' \<in>
      fst ` set (tagPolicyTags [''ec2''] (enforcedForKey ''detective'') ?tags)"
    by (simp add: tagPolicyTags_def assign_property_def)
  from tag_value_field [OF d m k] d m k show ?thesis by simp
qed

subsection \<open>C5: the applicability field\<close>

text \<open>
  C5. Every label entry of the compiled document is an object whose applicability field
  (the field named by the mode) assigns the catalog mapped, in its order, through
  \<^verbatim>\<open><service>:ALL_SUPPORTED\<close>: the same list whatever the label and its values. The
  entry has no field besides \<^verbatim>\<open>tag_key\<close>, \<^verbatim>\<open>tag_value\<close> and this one.
\<close>

theorem applicability_field:
  assumes "(tagKey, e) \<in> set (tagPolicyTags services (enforcedForKey mode) tags)"
  shows "\<exists>entry. e = JObject entry \<and>
           map_of entry (enforcedForKey mode) =
             Some (JObject [(''@@assign'',
                     JArray (map (\<lambda>service. JString (service @ '':ALL_SUPPORTED'')) services))]) \<and>
           fst ` set entry \<subseteq> {''tag_key'', ''tag_value'', enforcedForKey mode}"
proof -
  from assms obtain allowedValues
    where e: "e = tagEntry services (enforcedForKey mode) tagKey allowedValues"
    unfolding tagPolicyTags_def
    using foldl_members [of tagKey e "tagEntry services (enforcedForKey mode)" "[]" tags]
    by auto
  note fields = tagEntry_cases [OF enforcedForKey_fresh]
  show ?thesis
  proof (cases "allowedValues = []")
    case True
    with e show ?thesis
      by (simp add: fields(1) assign_def all_supported_def enforcedForKey_fresh
          enforcedForKey_fresh')
  next
    case False
    with e show ?thesis
      by (simp add: fields(2) assign_def all_supported_def enforcedForKey_fresh
          enforcedForKey_fresh')
  qed
qed

text \<open>
  C5, witness: the entry of the label \<^verbatim>\<open>Owner\<close> in the document compiled in the mode
  \<^verbatim>\<open>preventive\<close> against the catalog \<^verbatim>\<open>["ec2","s3"]\<close>.
\<close>

theorem applicability_field_witness:
  "(''Owner'', JObject [(''tag_key'', JObject [(''@@assign'', JString ''Owner'')]),
        (''enforced_for'', JObject [(''@@assign'',
            JArray [JString ''ec2:ALL_SUPPORTED'', JString ''s3:ALL_SUPPORTED''])])])
     \<in> set (tagPolicyTags [''ec2'', ''s3''] (enforcedForKey ''preventive'')
         [(''Environment'', [''Dev'', ''Prod'']), (''Owner'', [])]) \<and>
   (\<exists>entry. JObject [(''tag_key'', JObject [(''@@assign'', JString ''Owner'')]),
        (''enforced_for'', JObject [(''@@assign'',
            JArray [JString ''ec2:ALL_SUPPORTED'', JString ''s3:ALL_SUPPORTED''])])]
       = JObject entry \<and>
      map_of entry (enforcedForKey ''preventive'') =
        Some (JObject [(''@@assign'',
            JArray [JString ''ec2:ALL_SUPPORTED'', JString ''s3:ALL_SUPPORTED''])]))"
proof -
  let ?e = "JObject [(''tag_key'', JObject [(''@@assign'', JString ''Owner'')]),
        (''enforced_for'', JObject [(''@@assign'',
            JArray [JString ''ec2:ALL_SUPPORTED'', JString ''s3:ALL_SUPPORTED''])])]"
  let ?tags = "[(''Environment'', [''Dev'', ''Prod'']), (''Owner'', [])]"
  have m: "(''Owner'', ?e) \<in>
      set (tagPolicyTags [''ec2'', ''s3''] (enforcedForKey ''preventive'') ?tags)"
    by (simp add: content_defs enforcedForKey_def)
  from applicability_field [OF m] m show ?thesis by (simp add: enforcedForKey_def)
qed

subsection \<open>C6: switching the mode\<close>

text \<open>
  C6. The report mode (\<^verbatim>\<open>detective\<close>) selects the field \<^verbatim>\<open>*@@report_required_tag_for*\<close>
  and the enforcing mode (\<^verbatim>\<open>preventive\<close>) the field \<^verbatim>\<open>enforced_for\<close>. For every mapping
  and every catalog, every label entry of the document compiled in the report mode has
  the report field and not the enforcing one, every label entry of the document
  compiled in the enforcing mode has the enforcing field and not the report one, and
  the second document is the first with the report field of every label entry renamed
  to \<^verbatim>\<open>enforced_for\<close>: the value of that field, its place, every other field and every
  label name are the same.
\<close>

theorem mode_switch_renames_field:
  "enforcedForKey (enforcementMode (Some ''detective'')) = ''*@@report_required_tag_for*'' \<and>
   enforcedForKey (enforcementMode (Some ''preventive'')) = ''enforced_for'' \<and>
   (\<forall>tagKey e.
      (tagKey, e) \<in> set (tagPolicyTags services
                           (enforcedForKey (enforcementMode (Some ''detective''))) tags) \<longrightarrow>
      (\<exists>entry. e = JObject entry \<and>
         ''*@@report_required_tag_for*'' \<in> fst ` set entry \<and>
         ''enforced_for'' \<notin> fst ` set entry)) \<and>
   (\<forall>tagKey e.
      (tagKey, e) \<in> set (tagPolicyTags services
                           (enforcedForKey (enforcementMode (Some ''preventive''))) tags) \<longrightarrow>
      (\<exists>entry. e = JObject entry \<and>
         ''enforced_for'' \<in> fst ` set entry \<and>
         ''*@@report_required_tag_for*'' \<notin> fst ` set entry)) \<and>
   tagPolicyContent services (enforcedForKey (enforcementMode (Some ''preventive''))) tags =
   rename_entry_field ''*@@report_required_tag_for*'' ''enforced_for''
     (tagPolicyContent services (enforcedForKey (enforcementMode (Some ''detective''))) tags)"
proof -
  let ?R = "''*@@report_required_tag_for*''"
  let ?E = "''enforced_for''"
  let ?g = "rename_field ?R ?E"
  have report: "enforcedForKey (enforcementMode (Some ''detective'')) = ?R"
    by (simp add: enforcementMode_def enforcedForKey_def)
  have enforce: "enforcedForKey (enforcementMode (Some ''preventive'')) = ?E"
    by (simp add: enforcementMode_def enforcedForKey_def)
  have in_report: "\<forall>tagKey e. (tagKey, e) \<in> set (tagPolicyTags services ?R tags) \<longrightarrow>
      (\<exists>entry. e = JObject entry \<and> ?R \<in> fst ` set entry \<and> ?E \<notin> fst ` set entry)"
  proof (intro allI impI)
    fix tagKey e
    assume "(tagKey, e) \<in> set (tagPolicyTags services ?R tags)"
    then show "\<exists>entry. e = JObject entry \<and> ?R \<in> fst ` set entry \<and> ?E \<notin> fst ` set entry"
      by (rule tagPolicyTags_field_names [rotated 5]) simp_all
  qed
  have in_enforce: "\<forall>tagKey e. (tagKey, e) \<in> set (tagPolicyTags services ?E tags) \<longrightarrow>
      (\<exists>entry. e = JObject entry \<and> ?E \<in> fst ` set entry \<and> ?R \<notin> fst ` set entry)"
  proof (intro allI impI)
    fix tagKey e
    assume "(tagKey, e) \<in> set (tagPolicyTags services ?E tags)"
    then show "\<exists>entry. e = JObject entry \<and> ?E \<in> fst ` set entry \<and> ?R \<notin> fst ` set entry"
      by (rule tagPolicyTags_field_names [rotated 5]) simp_all
  qed
  have "tagPolicyTags services ?E tags =
        map (\<lambda>(label, entry). (label, ?g entry)) (tagPolicyTags services ?R tags)"
    unfolding tagPolicyTags_def
    using foldl_rename [of ?g "tagEntry services ?R" "tagEntry services ?E" "[]" tags]
    by (simp add: rename_field_tagEntry)
  then have renamed: "tagPolicyContent services ?E tags =
      rename_entry_field ?R ?E (tagPolicyContent services ?R tags)"
    by (simp add: tagPolicyContent_def rename_entry_field_def)
  show ?thesis
    unfolding report enforce
    by (intro conjI refl in_report in_enforce renamed)
qed

text \<open>
  C6, witness: the label \<^verbatim>\<open>Owner\<close> of the mapping \<^verbatim>\<open>{"Owner": []}\<close> and the catalog
  \<^verbatim>\<open>["ec2"]\<close>; its entry in the report mode and its entry in the enforcing mode.
\<close>

theorem mode_switch_renames_field_witness:
  "(''Owner'', JObject [(''tag_key'', JObject [(''@@assign'', JString ''Owner'')]),
       (''*@@report_required_tag_for*'', JObject [(''@@assign'', JArray [JString ''ec2:ALL_SUPPORTED''])])])
     \<in> set (tagPolicyTags [''ec2''] (enforcedForKey (enforcementMode (Some ''detective'')))
              [(''Owner'', [])]) \<and>
   (\<exists>entry. JObject [(''tag_key'', JObject [(''@@assign'', JString ''Owner'')]),
       (''*@@report_required_tag_for*'', JObject [(''@@assign'', JArray [JString ''ec2:ALL_SUPPORTED''])])]
       = JObject entry \<and>
      ''*@@report_required_tag_for*'' \<in> fst ` set entry \<and> ''enforced_for'' \<notin> fst ` set entry) \<and>
   (''Owner'', JObject [(''tag_key'', JObject [(''@@assign'', JString ''Owner'')]),
       (''enforced_for'', JObject [(''@@assign'', JArray [JString ''ec2:ALL_SUPPORTED''])])])
     \<in> set (tagPolicyTags [''ec2''] (enforcedForKey (enforcementMode (Some ''preventive'')))
              [(''Owner'', [])]) \<and>
   (\<exists>entry. JObject [(''tag_key'', JObject [(''@@assign'', JString ''Owner'')]),
       (''enforced_for'', JObject [(''@@assign'', JArray [JString ''ec2:ALL_SUPPORTED''])])]
       = JObject entry \<and>
      ''enforced_for'' \<in> fst ` set entry \<and> ''*@@report_required_tag_for*'' \<notin> fst ` set entry) \<and>
   tagPolicyContent [''ec2''] (enforcedForKey (enforcementMode (Some ''preventive''))) [(''Owner'', [])] =
   rename_entry_field ''*@@report_required_tag_for*'' ''enforced_for''
     (tagPolicyContent [''ec2''] (enforcedForKey (enforcementMode (Some ''detective''))) [(''Owner'', [])])"
proof -
  let ?eR = "JObject [(''tag_key'', JObject [(''@@assign'', JString ''Owner'')]),
       (''*@@report_required_tag_for*'', JObject [(''@@assign'', JArray [JString ''ec2:ALL_SUPPORTED''])])]"
  let ?eE = "JObject [(''tag_key'', JObject [(''@@assign'', JString ''Owner'')]),
       (''enforced_for'', JObject [(''@@assign'', JArray [JString ''ec2:ALL_SUPPORTED''])])]"
  let ?tags = "[(''Owner'', [])] :: (string \<times> string list) list"
  note inst = mode_switch_renames_field [of "[''ec2'']" ?tags]
  note in_report = inst [THEN conjunct2, THEN conjunct2, THEN conjunct1, rule_format]
  note in_enforce =
    inst [THEN conjunct2, THEN conjunct2, THEN conjunct2, THEN conjunct1, rule_format]
  note renamed = inst [THEN conjunct2, THEN conjunct2, THEN conjunct2, THEN conjunct2]
  have mR: "(''Owner'', ?eR) \<in>
      set (tagPolicyTags [''ec2''] (enforcedForKey (enforcementMode (Some ''detective''))) ?tags)"
    by (simp add: content_defs config_defs)
  have mE: "(''Owner'', ?eE) \<in>
      set (tagPolicyTags [''ec2''] (enforcedForKey (enforcementMode (Some ''preventive''))) ?tags)"
    by (simp add: content_defs config_defs)
  show ?thesis
    by (intro conjI mR mE in_report [OF mR] in_enforce [OF mE] renamed)
qed

subsection \<open>C7: the serialised document depends on the compiled triple only\<close>

text \<open>
  C7. Two runs of the program whose configurations resolve to the same label mapping
  and to the same applicability field (the catalog is the program's constant) register
  policies whose serialised contents are the same text, byte for byte: whatever the raw
  configuration values were, whatever ids the engine assigns and whatever roots the
  organization has.
\<close>

theorem policy_content_deterministic:
  assumes "requiredTags (cfg_requiredTags c1) = requiredTags (cfg_requiredTags c2)"
    and "enforcedForKey (enforcementMode (cfg_enforcementMode c1)) =
         enforcedForKey (enforcementMode (cfg_enforcementMode c2))"
  shows "map policy_content (policies (program id1 roots1 c1)) =
         map policy_content (policies (program id2 roots2 c2))"
  using assms by (simp add: program_def tagPolicy_def)

text \<open>
  C7, witness: a run with nothing configured and a run with the built-in mapping and
  the mode \<^verbatim>\<open>detective\<close> written out, under different ids and roots.
\<close>

theorem policy_content_deterministic_witness:
  "requiredTags (cfg_requiredTags \<lparr>cfg_requiredTags = None, cfg_enforcementMode = None\<rparr>) =
   requiredTags (cfg_requiredTags
     \<lparr>cfg_requiredTags = Some (requiredTags None), cfg_enforcementMode = Some ''detective''\<rparr>) \<and>
   enforcedForKey (enforcementMode (cfg_enforcementMode
     \<lparr>cfg_requiredTags = None, cfg_enforcementMode = None\<rparr>)) =
   enforcedForKey (enforcementMode (cfg_enforcementMode
     \<lparr>cfg_requiredTags = Some (requiredTags None), cfg_enforcementMode = Some ''detective''\<rparr>)) \<and>
   map policy_content (policies (program (\<lambda>n. ''p-1'') [''r-1'']
     \<lparr>cfg_requiredTags = None, cfg_enforcementMode = None\<rparr>)) =
   map policy_content (policies (program (\<lambda>n. ''p-2'') []
     \<lparr>cfg_requiredTags = Some (requiredTags None), cfg_enforcementMode = Some ''detective''\<rparr>))"
proof -
  let ?c1 = "\<lparr>cfg_requiredTags = None, cfg_enforcementMode = None\<rparr>"
  let ?c2 = "\<lparr>cfg_requiredTags = Some (requiredTags None),
              cfg_enforcementMode = Some ''detective''\<rparr>"
  have t: "requiredTags (cfg_requiredTags ?c1) = requiredTags (cfg_requiredTags ?c2)"
    by (simp add: requiredTags_def)
  have m: "enforcedForKey (enforcementMode (cfg_enforcementMode ?c1)) =
           enforcedForKey (enforcementMode (cfg_enforcementMode ?c2))"
    by (simp add: enforcementMode_def)
  from policy_content_deterministic [OF t m] t m show ?thesis by blast
qed

subsection \<open>C8: the built-in mapping\<close>

text \<open>
  C8, as stated, fails. The claim says that an empty configured mapping falls back to
  the built-in one. The empty object is truthy, so the program keeps it: the result is
  the empty mapping, not the built-in one.
\<close>

theorem requiredTags_empty_counterexample:
  "requiredTags (Some []) = [] \<and>
   requiredTags (Some []) \<noteq>
     [(''Environment'', [''Development'', ''Staging'', ''Production'']),
      (''Owner'', []), (''CostCenter'', []), (''Project'', [])]"
  by (simp add: requiredTags_def)

text \<open>
  C8, amended. When no mapping is configured the program uses the built-in one:
  \<^verbatim>\<open>Environment\<close> restricted to exactly the three values \<^verbatim>\<open>Development\<close>, \<^verbatim>\<open>Staging\<close>,
  \<^verbatim>\<open>Production\<close>, then \<^verbatim>\<open>Owner\<close>, \<^verbatim>\<open>CostCenter\<close> and \<^verbatim>\<open>Project\<close>, each with no allowed
  values. A configured mapping, the empty one too, is used as it is.
\<close>

theorem requiredTags_default:
  "requiredTags None =
     [(''Environment'', [''Development'', ''Staging'', ''Production'']),
      (''Owner'', []), (''CostCenter'', []), (''Project'', [])] \<and>
   (\<forall>obj. requiredTags (Some obj) = obj)"
  by (simp add: requiredTags_def)

subsection \<open>C9: the attachment\<close>

text \<open>
  C9, as stated, fails. The claim says that an empty target scope is rejected when the
  attachment is built. The program checks nothing: with a root whose id is the empty
  string, the run registers the attachment, with this empty target.
\<close>

theorem empty_target_counterexample:
  "attachments (program (\<lambda>n. n) [[]] \<lparr>cfg_requiredTags = None, cfg_enforcementMode = None\<rparr>) =
   [\<lparr>policyId = ''required-tags-policy'', targetId = Some []\<rparr>]"
  by (simp add: program_def policyAttachment_def)

text \<open>
  C9, amended. The attachment has no error condition in the program: every run
  registers exactly one attachment; for every first root, the empty string included,
  the attachment pairs this root's id with the id of the policy
  \<^verbatim>\<open>required-tags-policy\<close>, and this policy is registered in the same run.
\<close>

theorem policyAttachment_unchecked:
  "length (attachments (program id_of roots cfg)) = 1 \<and>
   attachments (program id_of (root # roots) cfg) =
     [\<lparr>policyId = id_of ''required-tags-policy'', targetId = Some root\<rparr>] \<and>
   (\<exists>args. Policy ''required-tags-policy'' args \<in> set (program id_of (root # roots) cfg))"
  by (simp add: program_def policyAttachment_def)

subsection \<open>C10: what the mode comparison does\<close>

text \<open>
  C10. Resolving the mode is a total function with no error result. An absent mode and
  the empty string resolve to \<^verbatim>\<open>detective\<close> and so to the report field; the configured
  string \<^verbatim>\<open>detective\<close> is kept as the mode and selects the report field
  \<^verbatim>\<open>*@@report_required_tag_for*\<close>; every other non-empty string is kept as the mode and
  selects the blocking field \<^verbatim>\<open>enforced_for\<close>.
\<close>

theorem enforcementMode_total:
  "enforcementMode None = ''detective'' \<and>
   enforcementMode (Some []) = ''detective'' \<and>
   enforcementMode (Some ''detective'') = ''detective'' \<and>
   enforcedForKey ''detective'' = ''*@@report_required_tag_for*'' \<and>
   enforcedForKey (enforcementMode None) = ''*@@report_required_tag_for*'' \<and>
   enforcedForKey (enforcementMode (Some [])) = ''*@@report_required_tag_for*'' \<and>
   enforcedForKey (enforcementMode (Some ''detective'')) = ''*@@report_required_tag_for*'' \<and>
   (\<forall>s. s \<noteq> [] \<longrightarrow> s \<noteq> ''detective'' \<longrightarrow>
      enforcementMode (Some s) = s \<and>
      enforcedForKey (enforcementMode (Some s)) = ''enforced_for'')"
  by (simp add: enforcementMode_def enforcedForKey_def)

text \<open>
  C10, witness: the strings \<^verbatim>\<open>report\<close> and \<^verbatim>\<open>enforce\<close> of the specification, the mode
  \<^verbatim>\<open>preventive\<close> and the misspelling \<^verbatim>\<open>detectiv\<close> all select the blocking field.
\<close>

theorem enforcementMode_total_witness:
  "''report'' \<noteq> [] \<and> ''report'' \<noteq> ''detective'' \<and>
   enforcedForKey (enforcementMode (Some ''report'')) = ''enforced_for'' \<and>
   enforcedForKey (enforcementMode (Some ''enforce'')) = ''enforced_for'' \<and>
   enforcedForKey (enforcementMode (Some ''preventive'')) = ''enforced_for'' \<and>
   enforcedForKey (enforcementMode (Some ''detectiv'')) = ''enforced_for''"
proof -
  have all: "\<forall>s. s \<noteq> [] \<longrightarrow> s \<noteq> ''detective'' \<longrightarrow>
      enforcementMode (Some s) = s \<and>
      enforcedForKey (enforcementMode (Some s)) = ''enforced_for''"
    using enforcementMode_total by blast
  have "enforcedForKey (enforcementMode (Some ''report'')) = ''enforced_for''"
    using all [rule_format, of "''report''"] by auto
  moreover have "enforcedForKey (enforcementMode (Some ''enforce'')) = ''enforced_for''"
    using all [rule_format, of "''enforce''"] by auto
  moreover have "enforcedForKey (enforcementMode (Some ''preventive'')) = ''enforced_for''"
    using all [rule_format, of "''preventive''"] by auto
  moreover have "enforcedForKey (enforcementMode (Some ''detectiv'')) = ''enforced_for''"
    using all [rule_format, of "''detectiv''"] by auto
  ultimately show ?thesis by simp
qed

end
